theory Spec2Isabelle
  imports Complex_Main
begin

section \<open>The climb log form: state, handlers and the emitted record\<close>

text \<open>
  A shallow embedding of \<^verbatim>\<open>src/components/ClimbLogForm.tsx\<close>. The component keeps
  twelve pieces of React state; together they are the draft. Every handler of the
  component is a function from drafts to drafts, \<^verbatim>\<open>handleSubmit\<close> also returns what it
  passes to the \<^verbatim>\<open>onSubmit\<close> callback (nothing when it returns early).

  Conventions of the embedding:
  \<^item> a JavaScript string is a \<^typ>\<open>string\<close>; its truthiness is being non-empty;
  \<^item> \<^verbatim>\<open>undefined\<close> is \<open>None\<close>: a key of the emitted object whose value is
    \<^verbatim>\<open>undefined\<close> is read as an absent key, as the optional fields of the
    \<^verbatim>\<open>onSubmit\<close> parameter type and JSON serialisation both do;
  \<^item> a JavaScript number is \<open>NaN\<close> or a real number; rounding to a double, the
    infinities and the sign of zero are not modelled.
\<close>

subsection \<open>JavaScript values\<close>

datatype jsnum = NaN | Fin real

definition truthy :: "string \<Rightarrow> bool" where
  "truthy s \<longleftrightarrow> s \<noteq> []"

text \<open>\<^verbatim>\<open>s || undefined\<close> and \<^verbatim>\<open>o || ""\<close> for an optional string.\<close>

definition orUndefined :: "string \<Rightarrow> string option" where
  "orUndefined s = (if truthy s then Some s else None)"

definition orEmpty :: "string option \<Rightarrow> string" where
  "orEmpty v = (case v of None \<Rightarrow> [] | Some s \<Rightarrow> (if truthy s then s else []))"

text \<open>
  \<^verbatim>\<open>String.prototype.trim\<close> removes white space and line terminators from both
  ends. Of these, the code units below 256 are tab, line feed, vertical tab, form feed,
  carriage return, space and no-break space. The component never calls it; it is here
  because the specification speaks of the trimmed name.
\<close>

definition isWhiteSpace :: "char \<Rightarrow> bool" where
  "isWhiteSpace c \<longleftrightarrow> (of_char c :: nat) \<in> {9, 10, 11, 12, 13, 32, 160}"

definition trim :: "string \<Rightarrow> string" where
  "trim s = rev (dropWhile isWhiteSpace (rev (dropWhile isWhiteSpace s)))"

text \<open>
  \<^verbatim>\<open>num.toString()\<close> for a natural number, and \<^verbatim>\<open>Number(s)\<close> on the empty string
  and on decimal literals: an optional sign, digits with an optional fraction, an
  optional exponent. The form passes \<^verbatim>\<open>Number\<close> the value of a select item
  (\<^verbatim>\<open>"1"\<close> to \<^verbatim>\<open>"5"\<close>) or of a number input, which are of this shape. Other
  strings that JavaScript converts (surrounding blanks, \<^verbatim>\<open>Infinity\<close>, hexadecimal
  literals) are outside this fragment and come out as \<open>NaN\<close> here.
\<close>

fun toString :: "nat \<Rightarrow> string" where
  "toString n =
     (if n < 10 then [char_of (48 + n)]
      else toString (n div 10) @ [char_of (48 + n mod 10)])"

definition isDigit :: "char \<Rightarrow> bool" where
  "isDigit c \<longleftrightarrow> 48 \<le> (of_char c :: nat) \<and> (of_char c :: nat) \<le> 57"

definition digitsValue :: "string \<Rightarrow> nat" where
  "digitsValue ds = foldl (\<lambda>a c. 10 * a + (of_char c - 48)) 0 ds"

definition allDigits :: "string \<Rightarrow> bool" where
  "allDigits ds \<longleftrightarrow> ds \<noteq> [] \<and> list_all isDigit ds"

fun exponentPart :: "string \<Rightarrow> int option" where
  "exponentPart [] = Some 0"
| "exponentPart (c # cs) =
     (if c = CHR ''e'' \<or> c = CHR ''E'' then
        (case cs of
           [] \<Rightarrow> None
         | s # ds \<Rightarrow>
             if s = CHR ''-'' then (if allDigits ds then Some (- int (digitsValue ds)) else None)
             else if s = CHR ''+'' then (if allDigits ds then Some (int (digitsValue ds)) else None)
             else if allDigits cs then Some (int (digitsValue cs)) else None)
      else None)"

definition scale10 :: "real \<Rightarrow> int \<Rightarrow> real" where
  "scale10 m e = (if e < 0 then m / 10 ^ nat (- e) else m * 10 ^ nat e)"

definition unsignedDecimal :: "string \<Rightarrow> real option" where
  "unsignedDecimal s =
     (let ip = takeWhile isDigit s;
          r = dropWhile isDigit s;
          fp = (case r of [] \<Rightarrow> [] | c # cs \<Rightarrow> if c = CHR ''.'' then takeWhile isDigit cs else []);
          r' = (case r of [] \<Rightarrow> [] | c # cs \<Rightarrow> if c = CHR ''.'' then dropWhile isDigit cs else r)
      in if ip = [] \<and> fp = [] then None
         else (case exponentPart r' of
                 None \<Rightarrow> None
               | Some e \<Rightarrow>
                   Some (scale10 (real (digitsValue ip) + real (digitsValue fp) / 10 ^ length fp) e)))"

definition Number :: "string \<Rightarrow> jsnum" where
  "Number s =
     (case s of
        [] \<Rightarrow> Fin 0
      | c # cs \<Rightarrow>
          if c = CHR ''-'' then (case unsignedDecimal cs of None \<Rightarrow> NaN | Some x \<Rightarrow> Fin (- x))
          else if c = CHR ''+'' then (case unsignedDecimal cs of None \<Rightarrow> NaN | Some x \<Rightarrow> Fin x)
          else (case unsignedDecimal s of None \<Rightarrow> NaN | Some x \<Rightarrow> Fin x))"

subsection \<open>Props, state and the emitted object\<close>

datatype tickType = Send | Attempt | Flash | Onsight

text \<open>
  The props that matter to the state: \<open>availableGrades\<close> stands for the result of
  \<^verbatim>\<open>getGradesForSystem(gradeSystem)\<close>, whose table is not part of this file, and is a
  parameter; \<open>sessionLocation\<close> is optional.
\<close>

record props =
  availableGrades :: "string list"
  sessionLocation :: "string option"

record draft =
  name :: string
  grade :: string
  location :: string
  tickType :: tickType
  attempts :: jsnum
  height :: "jsnum option"
  timeOnWall :: "jsnum option"
  effort :: "jsnum list"
  notes' :: string
  physicalSkills :: "string list"
  technicalSkills :: "string list"
  showOptional :: bool

text \<open>
  The state field \<^verbatim>\<open>notes\<close> is \<open>notes'\<close> here, \<open>notes\<close> being a keyword
  of the theory language.
\<close>

text \<open>The argument of \<^verbatim>\<open>onSubmit\<close>; its keys carry the prefix \<open>c_\<close>.\<close>

record climb =
  c_name :: string
  c_grade :: string
  c_location :: "string option"
  c_tickType :: tickType
  c_attempts :: "jsnum option"
  c_height :: "jsnum option"
  c_timeOnWall :: "jsnum option"
  c_effort :: "jsnum option"
  c_notes :: "string option"
  c_physicalSkills :: "string list option"
  c_technicalSkills :: "string list option"

text \<open>The \<^verbatim>\<open>useState\<close> initial values, lines 45 to 58.\<close>

definition initialState :: "props \<Rightarrow> draft" where
  "initialState p =
     \<lparr> name = [], grade = [], location = orEmpty (sessionLocation p),
       tickType = Send, attempts = Fin 1, height = None, timeOnWall = None,
       effort = [Fin 7], notes' = [], physicalSkills = [], technicalSkills = [],
       showOptional = False \<rparr>"

subsection \<open>Submission\<close>

text \<open>
  The object literal of lines 64 to 76. \<^verbatim>\<open>effort[0]\<close> of an empty array is
  \<^verbatim>\<open>undefined\<close>.
\<close>

definition toRecord :: "draft \<Rightarrow> climb" where
  "toRecord d =
     \<lparr> c_name = name d,
       c_grade = grade d,
       c_location = orUndefined (location d),
       c_tickType = tickType d,
       c_attempts = (if tickType d = Attempt then Some (attempts d) else None),
       c_height = height d,
       c_timeOnWall = timeOnWall d,
       c_effort = (case effort d of [] \<Rightarrow> None | x # _ \<Rightarrow> Some x),
       c_notes = orUndefined (notes' d),
       c_physicalSkills =
         (if length (physicalSkills d) > 0 then Some (physicalSkills d) else None),
       c_technicalSkills =
         (if length (technicalSkills d) > 0 then Some (technicalSkills d) else None) \<rparr>"

text \<open>The twelve setter calls of lines 79 to 90.\<close>

definition resetForm :: "props \<Rightarrow> draft \<Rightarrow> draft" where
  "resetForm p d =
     d\<lparr> name := [], grade := [], location := orEmpty (sessionLocation p),
        tickType := Send, attempts := Fin 1, height := None, timeOnWall := None,
        effort := [Fin 7], notes' := [], physicalSkills := [], technicalSkills := [],
        showOptional := False \<rparr>"

text \<open>
  \<^verbatim>\<open>handleSubmit\<close>: the first component is the argument \<^verbatim>\<open>onSubmit\<close> is called with,
  \<open>None\<close> when it is not called; the second is the state afterwards.
\<close>

definition handleSubmit :: "props \<Rightarrow> draft \<Rightarrow> climb option \<times> draft" where
  "handleSubmit p d =
     (if \<not> truthy (name d) \<or> \<not> truthy (grade d) then (None, d)
      else (Some (toRecord d), resetForm p d))"

text \<open>
  The \<^verbatim>\<open>disabled\<close> attribute of the submit button, line 303; \<open>canSubmit\<close> is the
  button being enabled.
\<close>

definition submitDisabled :: "draft \<Rightarrow> bool" where
  "submitDisabled d \<longleftrightarrow> \<not> truthy (name d) \<or> \<not> truthy (grade d)"

definition canSubmit :: "draft \<Rightarrow> bool" where
  "canSubmit d \<longleftrightarrow> \<not> submitDisabled d"

subsection \<open>Field handlers\<close>

text \<open>The \<^verbatim>\<open>onClick\<close> of a tick type badge, lines 150 to 155.\<close>

definition clickTickType :: "tickType \<Rightarrow> draft \<Rightarrow> draft" where
  "clickTickType type d =
     (let d1 = d\<lparr>tickType := type\<rparr>
      in if type \<noteq> Attempt then d1\<lparr>attempts := Fin 1\<rparr> else d1)"

text \<open>The attempts select, lines 169 to 184: its items and its \<^verbatim>\<open>onValueChange\<close>.\<close>

definition attemptOptions :: "string list" where
  "attemptOptions = map toString [1, 2, 3, 4, 5]"

definition changeAttempts :: "string \<Rightarrow> draft \<Rightarrow> draft" where
  "changeAttempts v d = d\<lparr>attempts := Number v\<rparr>"

text \<open>The toggle button, line 193.\<close>

definition toggleOptional :: "draft \<Rightarrow> draft" where
  "toggleOptional d = d\<lparr>showOptional := \<not> showOptional d\<rparr>"

text \<open>The \<^verbatim>\<open>onChange\<close> of the two number inputs, lines 223 to 227 and 240 to 244.\<close>

definition changeHeight :: "string \<Rightarrow> draft \<Rightarrow> draft" where
  "changeHeight v d = d\<lparr>height := (if truthy v then Some (Number v) else None)\<rparr>"

definition changeTimeOnWall :: "string \<Rightarrow> draft \<Rightarrow> draft" where
  "changeTimeOnWall v d = d\<lparr>timeOnWall := (if truthy v then Some (Number v) else None)\<rparr>"

subsection \<open>The form as a state machine\<close>

text \<open>
  One event for each handler the rendered form can call. A handler of a control that is
  not rendered cannot fire: the attempts select is rendered while
  \<^verbatim>\<open>tickType === "attempt"\<close>, the optional card while \<^verbatim>\<open>showOptional\<close>. A select
  reports the value of one of its items. An event that cannot fire leaves the state as it
  is. \<open>Cancel\<close> calls the \<^verbatim>\<open>onCancel\<close> prop and touches no state.
\<close>

datatype event =
    ChangeName string
  | SelectGrade string
  | ClickTickType tickType
  | SelectAttempts string
  | ToggleOptional
  | ChangeLocation string
  | ChangeHeight string
  | ChangeTimeOnWall string
  | SlideEffort "jsnum list"
  | ChangePhysicalSkills "string list"
  | ChangeTechnicalSkills "string list"
  | ChangeNotes string
  | Submit
  | Cancel

fun handle :: "props \<Rightarrow> draft \<Rightarrow> event \<Rightarrow> draft" where
  "handle p d (ChangeName v) = d\<lparr>name := v\<rparr>"
| "handle p d (SelectGrade g) =
     (if g \<in> set (availableGrades p) then d\<lparr>grade := g\<rparr> else d)"
| "handle p d (ClickTickType type) = clickTickType type d"
| "handle p d (SelectAttempts v) =
     (if tickType d = Attempt \<and> v \<in> set attemptOptions then changeAttempts v d else d)"
| "handle p d ToggleOptional = toggleOptional d"
| "handle p d (ChangeLocation v) = (if showOptional d then d\<lparr>location := v\<rparr> else d)"
| "handle p d (ChangeHeight v) = (if showOptional d then changeHeight v d else d)"
| "handle p d (ChangeTimeOnWall v) = (if showOptional d then changeTimeOnWall v d else d)"
| "handle p d (SlideEffort vs) = (if showOptional d then d\<lparr>effort := vs\<rparr> else d)"
| "handle p d (ChangePhysicalSkills ss) =
     (if showOptional d then d\<lparr>physicalSkills := ss\<rparr> else d)"
| "handle p d (ChangeTechnicalSkills ss) =
     (if showOptional d then d\<lparr>technicalSkills := ss\<rparr> else d)"
| "handle p d (ChangeNotes v) = (if showOptional d then d\<lparr>notes' := v\<rparr> else d)"
| "handle p d Submit = snd (handleSubmit p d)"
| "handle p d Cancel = d"

text \<open>The state after a sequence of events, from the freshly mounted form.\<close>

definition run :: "props \<Rightarrow> event list \<Rightarrow> draft" where
  "run p evs = foldl (handle p) (initialState p) evs"

text \<open>
  The attempts count is one of the five values the select offers. It holds of the
  initial state and every handler keeps it, so it holds of every state the form reaches.
\<close>

definition attemptsInRange :: "draft \<Rightarrow> bool" where
  "attemptsInRange d \<longleftrightarrow> attempts d \<in> {Fin 1, Fin 2, Fin 3, Fin 4, Fin 5}"

section \<open>Evaluation and the attempts invariant\<close>

lemma attemptOptions_eq: "attemptOptions = [''1'', ''2'', ''3'', ''4'', ''5'']"
  by code_simp

lemmas Number_defs = Number_def unsignedDecimal_def isDigit_def digitsValue_def scale10_def

lemmas handler_defs = clickTickType_def changeAttempts_def toggleOptional_def
  changeHeight_def changeTimeOnWall_def
lemmas submit_defs = handleSubmit_def toRecord_def resetForm_def canSubmit_def
  submitDisabled_def truthy_def orUndefined_def orEmpty_def

lemma Number_attemptOptions:
  "map Number attemptOptions = [Fin 1, Fin 2, Fin 3, Fin 4, Fin 5]"
  by (simp add: attemptOptions_eq Number_defs)

lemma Number_option_range:
  assumes "v \<in> set attemptOptions"
  shows "Number v \<in> {Fin 1, Fin 2, Fin 3, Fin 4, Fin 5}"
proof -
  from assms have "Number v \<in> set (map Number attemptOptions)" by simp
  then show ?thesis unfolding Number_attemptOptions by simp
qed

lemma handle_attemptsInRange:
  assumes "attemptsInRange d"
  shows "attemptsInRange (handle p d ev)"
proof (cases ev)
  case (ClickTickType t)
  with assms show ?thesis by (simp add: attemptsInRange_def clickTickType_def Let_def)
next
  case (SelectAttempts v)
  with assms Number_option_range [of v] show ?thesis
    by (simp add: attemptsInRange_def changeAttempts_def)
next
  case Submit
  with assms show ?thesis
    by (simp add: attemptsInRange_def handleSubmit_def resetForm_def)
qed (use assms in \<open>simp_all add: attemptsInRange_def toggleOptional_def changeHeight_def changeTimeOnWall_def\<close>)

lemma foldl_attemptsInRange:
  "attemptsInRange d \<Longrightarrow> attemptsInRange (foldl (handle p) d evs)"
  by (induction evs arbitrary: d) (simp_all add: handle_attemptsInRange)

lemma run_attemptsInRange: "attemptsInRange (run p evs)"
  unfolding run_def
  by (rule foldl_attemptsInRange) (simp add: attemptsInRange_def initialState_def)

lemma int_1_5: "{1..5::int} = {1, 2, 3, 4, 5}"
  by auto

lemma foldl_toggle:
  "foldl (handle p) d (replicate n ToggleOptional) =
     d\<lparr>showOptional := (showOptional d \<noteq> odd n)\<rparr>"
proof (induction n arbitrary: d)
  case 0
  show ?case by simp
next
  case (Suc n)
  have flip: "((\<not> showOptional d) \<noteq> odd n) = (showOptional d \<noteq> odd (Suc n))"
    by auto
  have "foldl (handle p) d (replicate (Suc n) ToggleOptional) =
          foldl (handle p) (toggleOptional d) (replicate n ToggleOptional)"
    by simp
  also have "\<dots> = (toggleOptional d)\<lparr>showOptional := (showOptional (toggleOptional d) \<noteq> odd n)\<rparr>"
    by (rule Suc.IH)
  also have "\<dots> = d\<lparr>showOptional := (showOptional d \<noteq> odd (Suc n))\<rparr>"
    unfolding toggleOptional_def using flip by simp
  finally show ?case .
qed

section \<open>Properties\<close>

subsection \<open>When a draft can be submitted\<close>

text \<open>
  Claim C1 as the specification states it, with the name trimmed, fails: after typing a
  single blank as the name and choosing a grade, the submit button is enabled although
  the trimmed name is empty.
\<close>

theorem canSubmit_trim_counterexample:
  "\<not> (canSubmit (run \<lparr>availableGrades = [''5.9''], sessionLocation = None\<rparr>
                    [ChangeName '' '', SelectGrade ''5.9''])
       \<longleftrightarrow> trim (name (run \<lparr>availableGrades = [''5.9''], sessionLocation = None\<rparr>
                    [ChangeName '' '', SelectGrade ''5.9''])) \<noteq> ''''
           \<and> grade (run \<lparr>availableGrades = [''5.9''], sessionLocation = None\<rparr>
                    [ChangeName '' '', SelectGrade ''5.9'']) \<noteq> '''')"
  by (simp add: run_def initialState_def submit_defs trim_def isWhiteSpace_def)

text \<open>
  Claim C1, amended: \<open>canSubmit\<close> holds if and only if the name and the grade are
  both non-empty, the name taken as typed and not trimmed; \<^verbatim>\<open>handleSubmit\<close> emits a
  record exactly then; and \<open>canSubmit\<close> does not depend on any other field, the
  attempts count included.
\<close>

theorem canSubmit_iff_nonempty:
  "(canSubmit d \<longleftrightarrow> name d \<noteq> '''' \<and> grade d \<noteq> '''') \<and>
   (fst (handleSubmit p d) \<noteq> None \<longleftrightarrow> canSubmit d) \<and>
   canSubmit (d\<lparr>location := l, tickType := t, attempts := a, height := h, timeOnWall := w,
                effort := e, notes' := n, physicalSkills := ps, technicalSkills := ts,
                showOptional := b\<rparr>) = canSubmit d"
  by (simp add: submit_defs)

theorem canSubmit_iff_nonempty_witness:
  "canSubmit (run \<lparr>availableGrades = [''5.9''], sessionLocation = None\<rparr>
                [ChangeName ''X'', SelectGrade ''5.9'', ClickTickType Attempt]) \<and>
   fst (handleSubmit \<lparr>availableGrades = [''5.9''], sessionLocation = None\<rparr>
          (run \<lparr>availableGrades = [''5.9''], sessionLocation = None\<rparr>
             [ChangeName ''X'', SelectGrade ''5.9'', ClickTickType Attempt])) \<noteq> None \<and>
   \<not> canSubmit (run \<lparr>availableGrades = [''5.9''], sessionLocation = None\<rparr>
                  [ChangeName ''X'', ClickTickType Attempt])"
proof -
  let ?p = "\<lparr>availableGrades = [''5.9''], sessionLocation = None\<rparr>"
  let ?d = "run ?p [ChangeName ''X'', SelectGrade ''5.9'', ClickTickType Attempt]"
  let ?e = "run ?p [ChangeName ''X'', ClickTickType Attempt]"
  have d: "name ?d = ''X''" "grade ?d = ''5.9''"
    and e: "name ?e = ''X''" "grade ?e = ''''"
    by (simp_all add: run_def initialState_def handler_defs)
  from canSubmit_iff_nonempty [of ?d ?p] canSubmit_iff_nonempty [of ?e ?p]
  show ?thesis unfolding d e by simp
qed

subsection \<open>Tick type and attempts\<close>

text \<open>
  Claim C2: clicking a tick type other than \<open>Attempt\<close> sets the tick type and puts
  the attempts count back to 1, whatever it was. So, from any state, going to
  \<open>Attempt\<close>, choosing any number of attempts and going to another tick type leaves
  the attempts count at 1.
\<close>

theorem tickType_change_resets_attempts:
  assumes "type \<noteq> Attempt"
  shows "attempts (clickTickType type d) = Fin 1 \<and>
         tickType (clickTickType type d) = type \<and>
         attempts (handle p (handle p (handle p d (ClickTickType Attempt)) (SelectAttempts v))
                     (ClickTickType type)) = Fin 1"
  using assms by (simp add: handler_defs Let_def)

theorem tickType_change_resets_attempts_witness:
  "Flash \<noteq> Attempt \<and>
   attempts (run \<lparr>availableGrades = [], sessionLocation = None\<rparr>
        [ClickTickType Attempt, SelectAttempts ''3'']) = Fin 3 \<and>
   attempts (clickTickType Flash
     (run \<lparr>availableGrades = [], sessionLocation = None\<rparr>
        [ClickTickType Attempt, SelectAttempts ''3''])) = Fin 1 \<and>
   attempts (run \<lparr>availableGrades = [], sessionLocation = None\<rparr>
        [ClickTickType Send, ClickTickType Attempt, SelectAttempts ''4'']) = Fin 4 \<and>
   attempts (run \<lparr>availableGrades = [], sessionLocation = None\<rparr>
        [ClickTickType Send, ClickTickType Attempt, SelectAttempts ''4'',
         ClickTickType Send]) = Fin 1"
proof -
  let ?p = "\<lparr>availableGrades = [], sessionLocation = None\<rparr>"
  have ne: "Flash \<noteq> Attempt" "Send \<noteq> Attempt" by simp_all
  have a3: "attempts (run ?p [ClickTickType Attempt, SelectAttempts ''3'']) = Fin 3"
    and a4: "attempts (run ?p [ClickTickType Send, ClickTickType Attempt,
                                 SelectAttempts ''4'']) = Fin 4"
    by (simp_all add: run_def initialState_def handler_defs attemptOptions_eq Number_defs)
  from tickType_change_resets_attempts
         [OF ne(1), of "run ?p [ClickTickType Attempt, SelectAttempts ''3'']" ?p "''3''"]
       tickType_change_resets_attempts
         [OF ne(2), of "run ?p [ClickTickType Send]" ?p "''4''"]
  show ?thesis using a3 a4 by (simp add: run_def)
qed

text \<open>
  Claim C3: when \<^verbatim>\<open>handleSubmit\<close> emits a record, the record has an attempts value
  if and only if the tick type is \<open>Attempt\<close>; and for a draft the form has reached
  from its initial state, a value that is present is one of the integers 1 to 5.
\<close>

theorem record_attempts_iff_attempt:
  assumes "handleSubmit p d = (Some r, d')"
  shows "(c_attempts r \<noteq> None \<longleftrightarrow> tickType d = Attempt) \<and>
         (d = run p evs \<longrightarrow>
            (\<forall>n. c_attempts r = Some n \<longrightarrow> n \<in> (\<lambda>k. Fin (of_int k)) ` {1..5}))"
proof -
  from assms have r: "r = toRecord d"
    by (simp add: handleSubmit_def split: if_splits)
  have "attempts (run p evs) \<in> (\<lambda>k. Fin (of_int k)) ` {1..5}"
    using run_attemptsInRange [of p evs] by (simp add: attemptsInRange_def int_1_5)
  with r show ?thesis by (simp add: toRecord_def)
qed

theorem record_attempts_iff_attempt_witness:
  "handleSubmit \<lparr>availableGrades = [''5.9''], sessionLocation = None\<rparr>
     (run \<lparr>availableGrades = [''5.9''], sessionLocation = None\<rparr>
        [ChangeName ''X'', SelectGrade ''5.9'', ClickTickType Attempt, SelectAttempts ''3''])
   = (Some \<lparr>c_name = ''X'', c_grade = ''5.9'', c_location = None, c_tickType = Attempt,
            c_attempts = Some (Fin 3), c_height = None, c_timeOnWall = None,
            c_effort = Some (Fin 7), c_notes = None, c_physicalSkills = None,
            c_technicalSkills = None\<rparr>,
      initialState \<lparr>availableGrades = [''5.9''], sessionLocation = None\<rparr>)
   \<and> Fin 3 \<in> (\<lambda>k. Fin (of_int k)) ` {1..5}"
proof -
  let ?p = "\<lparr>availableGrades = [''5.9''], sessionLocation = None\<rparr>"
  let ?evs = "[ChangeName ''X'', SelectGrade ''5.9'', ClickTickType Attempt, SelectAttempts ''3'']"
  let ?r = "\<lparr>c_name = ''X'', c_grade = ''5.9'', c_location = None, c_tickType = Attempt,
            c_attempts = Some (Fin 3), c_height = None, c_timeOnWall = None,
            c_effort = Some (Fin 7), c_notes = None, c_physicalSkills = None,
            c_technicalSkills = None\<rparr>"
  have h: "handleSubmit ?p (run ?p ?evs) = (Some ?r, initialState ?p)"
    by (simp add: run_def initialState_def handler_defs submit_defs attemptOptions_eq Number_defs)
  from record_attempts_iff_attempt [OF h, of ?evs] h show ?thesis by simp
qed

subsection \<open>The emitted record\<close>

text \<open>
  Claim C4 as the specification states it fails: with the name \<^verbatim>\<open>" a"\<close> the emitted
  record carries the name with its leading blank, not the trimmed name.
\<close>

theorem record_name_trim_counterexample:
  "canSubmit (run \<lparr>availableGrades = [''5.9''], sessionLocation = None\<rparr>
                [ChangeName '' a'', SelectGrade ''5.9'']) \<and>
   map_option c_name
     (fst (handleSubmit \<lparr>availableGrades = [''5.9''], sessionLocation = None\<rparr>
        (run \<lparr>availableGrades = [''5.9''], sessionLocation = None\<rparr>
           [ChangeName '' a'', SelectGrade ''5.9''])))
   \<noteq> Some (trim (name (run \<lparr>availableGrades = [''5.9''], sessionLocation = None\<rparr>
                         [ChangeName '' a'', SelectGrade ''5.9''])))"
  by (simp add: run_def initialState_def submit_defs trim_def isWhiteSpace_def)

text \<open>
  Claim C4, amended: for every submittable draft a record is emitted whose name is the
  draft's name as typed, without trimming, and whose grade is the draft's grade.
\<close>

theorem record_name_grade_verbatim:
  assumes "canSubmit d"
  shows "\<exists>r. fst (handleSubmit p d) = Some r \<and> c_name r = name d \<and> c_grade r = grade d"
  using assms by (simp add: submit_defs)

theorem record_name_grade_verbatim_witness:
  "canSubmit (run \<lparr>availableGrades = [''5.9''], sessionLocation = None\<rparr>
                [ChangeName '' a'', SelectGrade ''5.9'']) \<and>
   (\<exists>r. fst (handleSubmit \<lparr>availableGrades = [''5.9''], sessionLocation = None\<rparr>
               (run \<lparr>availableGrades = [''5.9''], sessionLocation = None\<rparr>
                  [ChangeName '' a'', SelectGrade ''5.9''])) = Some r \<and>
        c_name r = '' a'' \<and> c_grade r = ''5.9'')"
proof -
  let ?p = "\<lparr>availableGrades = [''5.9''], sessionLocation = None\<rparr>"
  let ?d = "run ?p [ChangeName '' a'', SelectGrade ''5.9'']"
  have c: "canSubmit ?d"
    by (simp add: run_def initialState_def submit_defs)
  have n: "name ?d = '' a''" and g: "grade ?d = ''5.9''"
    by (simp_all add: run_def initialState_def)
  from record_name_grade_verbatim [OF c, of ?p] c n g show ?thesis by simp
qed

text \<open>
  Claim C5: for every submittable draft a record is emitted in which location and notes
  are absent when the empty string and carried over unchanged otherwise, height and time
  on wall are absent when unset and carried over unchanged otherwise, and each of the two
  skill lists is absent when empty and carried over unchanged otherwise.
\<close>

theorem record_optional_fields:
  assumes "canSubmit d"
  shows "\<exists>r. fst (handleSubmit p d) = Some r \<and>
           c_location r = (if location d = '''' then None else Some (location d)) \<and>
           c_height r = height d \<and>
           c_timeOnWall r = timeOnWall d \<and>
           c_notes r = (if notes' d = '''' then None else Some (notes' d)) \<and>
           c_physicalSkills r =
             (if physicalSkills d = [] then None else Some (physicalSkills d)) \<and>
           c_technicalSkills r =
             (if technicalSkills d = [] then None else Some (technicalSkills d))"
  using assms by (simp add: submit_defs)

theorem record_optional_fields_witness:
  "canSubmit (run \<lparr>availableGrades = [''5.9''], sessionLocation = Some ''Gym X''\<rparr>
                [ChangeName ''X'', SelectGrade ''5.9'', ToggleOptional,
                 ChangeHeight ''40'', ChangePhysicalSkills [''Power'']]) \<and>
   (\<exists>r. fst (handleSubmit \<lparr>availableGrades = [''5.9''], sessionLocation = Some ''Gym X''\<rparr>
               (run \<lparr>availableGrades = [''5.9''], sessionLocation = Some ''Gym X''\<rparr>
                  [ChangeName ''X'', SelectGrade ''5.9'', ToggleOptional,
                   ChangeHeight ''40'', ChangePhysicalSkills [''Power'']])) = Some r \<and>
        c_location r = Some ''Gym X'' \<and> c_height r = Some (Fin 40) \<and>
        c_timeOnWall r = None \<and> c_notes r = None \<and>
        c_physicalSkills r = Some [''Power''] \<and> c_technicalSkills r = None)"
proof -
  let ?p = "\<lparr>availableGrades = [''5.9''], sessionLocation = Some ''Gym X''\<rparr>"
  let ?d = "run ?p [ChangeName ''X'', SelectGrade ''5.9'', ToggleOptional,
                    ChangeHeight ''40'', ChangePhysicalSkills [''Power'']]"
  have d: "?d = \<lparr>name = ''X'', grade = ''5.9'', location = ''Gym X'', tickType = Send,
                 attempts = Fin 1, height = Some (Fin 40), timeOnWall = None,
                 effort = [Fin 7], notes' = '''', physicalSkills = [''Power''],
                 technicalSkills = [], showOptional = True\<rparr>"
    by (simp add: run_def initialState_def handler_defs truthy_def orEmpty_def Number_defs)
  have c: "canSubmit ?d"
    unfolding d by (simp add: submit_defs)
  from record_optional_fields [OF c, of ?p] c show ?thesis
    unfolding d by simp
qed

text \<open>
  Claim C9: for height and time on wall only the unset value is absent from the record.
  A draft whose height or time on wall is the number 0 emits a record with that key at 0,
  and typing \<^verbatim>\<open>"0"\<close> into the input gives such a draft; clearing the input sets the
  field back to unset, and the record then omits it.
\<close>

theorem zero_height_is_present:
  assumes "canSubmit d"
  shows "(\<exists>r. fst (handleSubmit p d) = Some r \<and>
              (c_height r = None \<longleftrightarrow> height d = None) \<and>
              (c_timeOnWall r = None \<longleftrightarrow> timeOnWall d = None) \<and>
              (height d = Some (Fin 0) \<longrightarrow> c_height r = Some (Fin 0)) \<and>
              (timeOnWall d = Some (Fin 0) \<longrightarrow> c_timeOnWall r = Some (Fin 0))) \<and>
         height (changeHeight ''0'' d) = Some (Fin 0) \<and>
         timeOnWall (changeTimeOnWall ''0'' d) = Some (Fin 0) \<and>
         height (changeHeight '''' d) = None \<and>
         timeOnWall (changeTimeOnWall '''' d) = None \<and>
         (\<exists>r. fst (handleSubmit p (changeHeight '''' d)) = Some r \<and> c_height r = None) \<and>
         (\<exists>r. fst (handleSubmit p (changeTimeOnWall '''' d)) = Some r \<and> c_timeOnWall r = None)"
  using assms by (simp add: submit_defs handler_defs Number_defs)

theorem zero_height_is_present_witness:
  "canSubmit (run \<lparr>availableGrades = [''5.9''], sessionLocation = None\<rparr>
                [ChangeName ''X'', SelectGrade ''5.9'', ToggleOptional,
                 ChangeHeight ''0'', ChangeTimeOnWall ''0'']) \<and>
   height (run \<lparr>availableGrades = [''5.9''], sessionLocation = None\<rparr>
                [ChangeName ''X'', SelectGrade ''5.9'', ToggleOptional,
                 ChangeHeight ''0'', ChangeTimeOnWall ''0'']) = Some (Fin 0) \<and>
   timeOnWall (run \<lparr>availableGrades = [''5.9''], sessionLocation = None\<rparr>
                [ChangeName ''X'', SelectGrade ''5.9'', ToggleOptional,
                 ChangeHeight ''0'', ChangeTimeOnWall ''0'']) = Some (Fin 0) \<and>
   (\<exists>r. fst (handleSubmit \<lparr>availableGrades = [''5.9''], sessionLocation = None\<rparr>
               (run \<lparr>availableGrades = [''5.9''], sessionLocation = None\<rparr>
                  [ChangeName ''X'', SelectGrade ''5.9'', ToggleOptional,
                   ChangeHeight ''0'', ChangeTimeOnWall ''0''])) = Some r \<and>
        c_height r = Some (Fin 0) \<and> c_timeOnWall r = Some (Fin 0))"
proof -
  let ?p = "\<lparr>availableGrades = [''5.9''], sessionLocation = None\<rparr>"
  let ?d = "run ?p [ChangeName ''X'', SelectGrade ''5.9'', ToggleOptional,
                    ChangeHeight ''0'', ChangeTimeOnWall ''0'']"
  have d: "?d = \<lparr>name = ''X'', grade = ''5.9'', location = '''', tickType = Send,
                 attempts = Fin 1, height = Some (Fin 0), timeOnWall = Some (Fin 0),
                 effort = [Fin 7], notes' = '''', physicalSkills = [],
                 technicalSkills = [], showOptional = True\<rparr>"
    by (simp add: run_def initialState_def handler_defs truthy_def orEmpty_def Number_defs)
  have c: "canSubmit ?d"
    unfolding d by (simp add: submit_defs)
  from zero_height_is_present [OF c, of ?p] c show ?thesis
    unfolding d by auto
qed

subsection \<open>Rejected and accepted submissions\<close>

text \<open>
  Claim C6: when the draft cannot be submitted, \<^verbatim>\<open>handleSubmit\<close> does not call
  \<^verbatim>\<open>onSubmit\<close> and leaves the whole draft as it was.
\<close>

theorem rejected_submit_is_noop:
  assumes "\<not> canSubmit d"
  shows "handleSubmit p d = (None, d) \<and> handle p d Submit = d"
  using assms by (simp add: submit_defs)

theorem rejected_submit_is_noop_witness:
  "\<not> canSubmit (run \<lparr>availableGrades = [''5.9''], sessionLocation = None\<rparr>
                  [SelectGrade ''5.9'', ClickTickType Attempt, SelectAttempts ''3'']) \<and>
   handleSubmit \<lparr>availableGrades = [''5.9''], sessionLocation = None\<rparr>
     (run \<lparr>availableGrades = [''5.9''], sessionLocation = None\<rparr>
        [SelectGrade ''5.9'', ClickTickType Attempt, SelectAttempts ''3''])
   = (None, \<lparr>name = '''', grade = ''5.9'', location = '''', tickType = Attempt,
              attempts = Fin 3, height = None, timeOnWall = None,
              effort = [Fin 7], notes' = '''', physicalSkills = [],
              technicalSkills = [], showOptional = False\<rparr>)"
proof -
  let ?p = "\<lparr>availableGrades = [''5.9''], sessionLocation = None\<rparr>"
  let ?d = "run ?p [SelectGrade ''5.9'', ClickTickType Attempt, SelectAttempts ''3'']"
  have d: "?d = \<lparr>name = '''', grade = ''5.9'', location = '''', tickType = Attempt,
              attempts = Fin 3, height = None, timeOnWall = None,
              effort = [Fin 7], notes' = '''', physicalSkills = [],
              technicalSkills = [], showOptional = False\<rparr>"
    by (simp add: run_def initialState_def handler_defs orEmpty_def attemptOptions_eq Number_defs)
  have c: "\<not> canSubmit ?d"
    unfolding d by (simp add: submit_defs)
  from rejected_submit_is_noop [OF c, of ?p] c show ?thesis
    unfolding d by simp
qed

text \<open>
  Claim C7: when the draft can be submitted, \<^verbatim>\<open>handleSubmit\<close> emits a record and
  leaves the draft at the defaults of a freshly mounted form: empty name and grade, tick
  type \<open>Send\<close>, attempts 1, effort 7, height and time on wall unset, empty notes,
  empty skill lists, and the location seeded again from the session location, empty
  when there is none.
\<close>

theorem accepted_submit_resets_draft:
  assumes "canSubmit d"
  shows "fst (handleSubmit p d) \<noteq> None \<and>
         name (snd (handleSubmit p d)) = '''' \<and>
         grade (snd (handleSubmit p d)) = '''' \<and>
         tickType (snd (handleSubmit p d)) = Send \<and>
         attempts (snd (handleSubmit p d)) = Fin 1 \<and>
         effort (snd (handleSubmit p d)) = [Fin 7] \<and>
         height (snd (handleSubmit p d)) = None \<and>
         timeOnWall (snd (handleSubmit p d)) = None \<and>
         notes' (snd (handleSubmit p d)) = '''' \<and>
         physicalSkills (snd (handleSubmit p d)) = [] \<and>
         technicalSkills (snd (handleSubmit p d)) = [] \<and>
         location (snd (handleSubmit p d)) =
           (case sessionLocation p of None \<Rightarrow> '''' | Some s \<Rightarrow> s) \<and>
         snd (handleSubmit p d) = initialState p"
  using assms by (simp add: submit_defs initialState_def split: option.splits)

theorem accepted_submit_resets_draft_witness:
  "canSubmit (run \<lparr>availableGrades = [''5.9''], sessionLocation = Some ''Gym X''\<rparr>
                [ChangeName ''X'', SelectGrade ''5.9'', ClickTickType Attempt,
                 SelectAttempts ''3'', ToggleOptional, ChangeLocation ''Crag'',
                 SlideEffort [Fin 9], ChangeNotes ''pumpy'']) \<and>
   run \<lparr>availableGrades = [''5.9''], sessionLocation = Some ''Gym X''\<rparr>
     [ChangeName ''X'', SelectGrade ''5.9'', ClickTickType Attempt,
      SelectAttempts ''3'', ToggleOptional, ChangeLocation ''Crag'',
      SlideEffort [Fin 9], ChangeNotes ''pumpy'', Submit]
   = \<lparr>name = '''', grade = '''', location = ''Gym X'', tickType = Send,
       attempts = Fin 1, height = None, timeOnWall = None,
       effort = [Fin 7], notes' = '''', physicalSkills = [],
       technicalSkills = [], showOptional = False\<rparr>"
proof -
  let ?p = "\<lparr>availableGrades = [''5.9''], sessionLocation = Some ''Gym X''\<rparr>"
  let ?d = "run ?p [ChangeName ''X'', SelectGrade ''5.9'', ClickTickType Attempt,
                 SelectAttempts ''3'', ToggleOptional, ChangeLocation ''Crag'',
                 SlideEffort [Fin 9], ChangeNotes ''pumpy'']"
  have d: "?d = \<lparr>name = ''X'', grade = ''5.9'', location = ''Crag'', tickType = Attempt,
                 attempts = Fin 3, height = None, timeOnWall = None,
                 effort = [Fin 9], notes' = ''pumpy'', physicalSkills = [],
                 technicalSkills = [], showOptional = True\<rparr>"
    by (simp add: run_def initialState_def handler_defs orEmpty_def attemptOptions_eq Number_defs)
  have c: "canSubmit ?d"
    unfolding d by (simp add: submit_defs)
  have s: "run ?p [ChangeName ''X'', SelectGrade ''5.9'', ClickTickType Attempt,
      SelectAttempts ''3'', ToggleOptional, ChangeLocation ''Crag'',
      SlideEffort [Fin 9], ChangeNotes ''pumpy'', Submit] = snd (handleSubmit ?p ?d)"
    by (simp add: run_def)
  from accepted_submit_resets_draft [OF c, of ?p] c show ?thesis
    unfolding s by (simp add: initialState_def orEmpty_def truthy_def)
qed

text \<open>
  Claim C10: a successful submission also sets \<open>showOptional\<close> to false, so the
  optional card is collapsed for the next draft.
\<close>

theorem accepted_submit_collapses_optional:
  assumes "canSubmit d"
  shows "fst (handleSubmit p d) \<noteq> None \<and> showOptional (snd (handleSubmit p d)) = False"
  using assms by (simp add: submit_defs)

theorem accepted_submit_collapses_optional_witness:
  "showOptional (run \<lparr>availableGrades = [''5.9''], sessionLocation = None\<rparr>
                [ChangeName ''X'', SelectGrade ''5.9'', ToggleOptional]) \<and>
   canSubmit (run \<lparr>availableGrades = [''5.9''], sessionLocation = None\<rparr>
                [ChangeName ''X'', SelectGrade ''5.9'', ToggleOptional]) \<and>
   \<not> showOptional (run \<lparr>availableGrades = [''5.9''], sessionLocation = None\<rparr>
                [ChangeName ''X'', SelectGrade ''5.9'', ToggleOptional, Submit])"
proof -
  let ?p = "\<lparr>availableGrades = [''5.9''], sessionLocation = None\<rparr>"
  let ?d = "run ?p [ChangeName ''X'', SelectGrade ''5.9'', ToggleOptional]"
  have d: "?d = \<lparr>name = ''X'', grade = ''5.9'', location = '''', tickType = Send,
                 attempts = Fin 1, height = None, timeOnWall = None,
                 effort = [Fin 7], notes' = '''', physicalSkills = [],
                 technicalSkills = [], showOptional = True\<rparr>"
    by (simp add: run_def initialState_def handler_defs orEmpty_def)
  have c: "canSubmit ?d"
    unfolding d by (simp add: submit_defs)
  have s: "run ?p [ChangeName ''X'', SelectGrade ''5.9'', ToggleOptional, Submit]
             = snd (handleSubmit ?p ?d)"
    by (simp add: run_def)
  from accepted_submit_collapses_optional [OF c, of ?p] c show ?thesis
    unfolding s unfolding d by simp
qed

subsection \<open>The optional section toggle\<close>

text \<open>
  Claim C8: any number of clicks on the toggle leaves every field of the draft other than
  \<open>showOptional\<close> as it was; \<open>showOptional\<close> is flipped once per click, and two
  clicks give the draft back unchanged.
\<close>

theorem toggle_changes_only_showOptional:
  "name (foldl (handle p) d (replicate n ToggleOptional)) = name d \<and>
   grade (foldl (handle p) d (replicate n ToggleOptional)) = grade d \<and>
   location (foldl (handle p) d (replicate n ToggleOptional)) = location d \<and>
   tickType (foldl (handle p) d (replicate n ToggleOptional)) = tickType d \<and>
   attempts (foldl (handle p) d (replicate n ToggleOptional)) = attempts d \<and>
   height (foldl (handle p) d (replicate n ToggleOptional)) = height d \<and>
   timeOnWall (foldl (handle p) d (replicate n ToggleOptional)) = timeOnWall d \<and>
   effort (foldl (handle p) d (replicate n ToggleOptional)) = effort d \<and>
   notes' (foldl (handle p) d (replicate n ToggleOptional)) = notes' d \<and>
   physicalSkills (foldl (handle p) d (replicate n ToggleOptional)) = physicalSkills d \<and>
   technicalSkills (foldl (handle p) d (replicate n ToggleOptional)) = technicalSkills d \<and>
   showOptional (foldl (handle p) d (replicate n ToggleOptional)) = (showOptional d \<noteq> odd n) \<and>
   toggleOptional (toggleOptional d) = d"
  by (simp add: foldl_toggle toggleOptional_def)

theorem toggle_changes_only_showOptional_witness:
  "foldl (handle \<lparr>availableGrades = [''5.9''], sessionLocation = None\<rparr>)
     (run \<lparr>availableGrades = [''5.9''], sessionLocation = None\<rparr>
        [ToggleOptional, ChangeLocation ''Crag'', ChangeHeight ''40'', ChangeNotes ''pumpy''])
     [ToggleOptional, ToggleOptional]
   = \<lparr>name = '''', grade = '''', location = ''Crag'', tickType = Send,
       attempts = Fin 1, height = Some (Fin 40), timeOnWall = None,
       effort = [Fin 7], notes' = ''pumpy'', physicalSkills = [],
       technicalSkills = [], showOptional = True\<rparr>"
proof -
  let ?p = "\<lparr>availableGrades = [''5.9''], sessionLocation = None\<rparr>"
  let ?d = "run ?p [ToggleOptional, ChangeLocation ''Crag'', ChangeHeight ''40'',
                    ChangeNotes ''pumpy'']"
  have d: "?d = \<lparr>name = '''', grade = '''', location = ''Crag'', tickType = Send,
       attempts = Fin 1, height = Some (Fin 40), timeOnWall = None,
       effort = [Fin 7], notes' = ''pumpy'', physicalSkills = [],
       technicalSkills = [], showOptional = True\<rparr>"
    by (simp add: run_def initialState_def handler_defs truthy_def orEmpty_def Number_defs)
  have "foldl (handle ?p) ?d [ToggleOptional, ToggleOptional] = toggleOptional (toggleOptional ?d)"
    by simp
  also from toggle_changes_only_showOptional [of ?p ?d 2]
  have "\<dots> = ?d" by simp
  finally show ?thesis unfolding d .
qed

end
